theory Spec2Isabelle
  imports Complex_Main
begin

section \<open>Traffic signal coordinator: data model\<close>

text \<open>
  A shallow embedding of \<^verbatim>\<open>src/agents/signal_coordinator_agent.py\<close>.
  Python's unbounded integers are \<^typ>\<open>int\<close>. Python's floats are modelled by exact
  rationals (\<^typ>\<open>rat\<close>): every float operation of the source (\<^verbatim>\<open>/\<close>, \<^verbatim>\<open>*\<close>,
  \<^verbatim>\<open>+\<close>, \<^verbatim>\<open>-\<close>, comparison, \<^verbatim>\<open>int()\<close>, \<^verbatim>\<open>round(x, 1)\<close>) is the exact operation, so
  binary rounding error, infinities and NaN are outside the model (a product that is a
  whole number in exact arithmetic can be a float just below it, which \<^verbatim>\<open>int()\<close>
  then truncates to the integer below; the concrete inputs evaluated in this theory stay
  away from such points). Dictionaries are
  maps, a raised exception and a returned \<^verbatim>\<open>{'error': ...}\<close> dictionary are both
  values of the type \<open>error\<close>, and the coordinator object is passed and returned
  explicitly: every operation returns its result together with the coordinator it
  leaves behind. The clock reading \<^verbatim>\<open>datetime.now()\<close> is a parameter \<open>now\<close>. The
  parameters \<^verbatim>\<open>pollution_levels\<close> and \<^verbatim>\<open>traffic_recommendations\<close> of
  \<^verbatim>\<open>optimize_signal_timing\<close> are never read by the source and are left out.
\<close>

type_synonym datetime = string

datatype SignalPhase = RED | YELLOW | GREEN

record TrafficSignal =
  signal_id :: string
  intersection_name :: string
  coordinates :: "rat \<times> rat"
  cycle_time :: int
  red_time :: int
  green_time :: int
  yellow_time :: int
  all_red_time :: int
  current_phase :: SignalPhase
  phase_start_time :: "datetime option"
  time_in_phase :: int
  connected_roads :: "string list option"
  min_green :: int
  max_green :: int
  adaptive_offset :: int

text \<open>The dataclass constructor with its defaults, for the arguments the source passes.\<close>

definition new_TrafficSignal ::
  "string \<Rightarrow> string \<Rightarrow> rat \<times> rat \<Rightarrow> string list \<Rightarrow> datetime \<Rightarrow> TrafficSignal" where
  "new_TrafficSignal sid iname coords roads now =
     \<lparr> signal_id = sid, intersection_name = iname, coordinates = coords,
       cycle_time = 120, red_time = 60, green_time = 50, yellow_time = 5, all_red_time = 5,
       current_phase = RED, phase_start_time = Some now, time_in_phase = 0,
       connected_roads = Some roads, min_green = 15, max_green = 80, adaptive_offset = 0 \<rparr>"

record Intersection =
  intersection_id :: string
  name :: string
  location :: "rat \<times> rat"
  signals :: "string \<rightharpoonup> TrafficSignal"
  queue_length_north :: int
  queue_length_south :: int
  queue_length_east :: int
  queue_length_west :: int
  avg_speed :: rat
  avg_congestion :: rat
  local_aqi :: int
  priority_level :: string

text \<open>
  The field \<open>location\<close> is the source's \<^verbatim>\<open>Intersection.coordinates\<close> (the name
  \<open>coordinates\<close> is taken by the signal's field).
\<close>

definition new_Intersection ::
  "string \<Rightarrow> string \<Rightarrow> rat \<times> rat \<Rightarrow> (string \<rightharpoonup> TrafficSignal) \<Rightarrow> Intersection" where
  "new_Intersection iid nm coords sigs =
     \<lparr> intersection_id = iid, name = nm, location = coords, signals = sigs,
       queue_length_north = 0, queue_length_south = 0, queue_length_east = 0,
       queue_length_west = 0, avg_speed = 30, avg_congestion = 50, local_aqi = 100,
       priority_level = ''normal'' \<rparr>"

record TrafficSignalCoordinator =
  city_name :: string
  intersections :: "string \<rightharpoonup> Intersection"
  signal_timing_history :: "string \<rightharpoonup> string"
  coordination_offsets :: "string \<rightharpoonup> int"
  optimization_mode :: string

text \<open>
  Errors: the two dictionaries \<^verbatim>\<open>{'error': 'Intersection not found'}\<close> and
  \<^verbatim>\<open>{'error': 'Need at least 2 intersections for green wave'}\<close> that the source
  returns, and the two exceptions its arithmetic and its dictionary reads can raise.
\<close>

datatype error =
    IntersectionNotFound
  | NeedTwoIntersections
  | ZeroDivisionError
  | KeyError string

section \<open>Python primitives\<close>

definition py_int :: "rat \<Rightarrow> int" where
  \<comment> \<open>\<^verbatim>\<open>int(x)\<close> of a float: truncation towards zero.\<close>
  "py_int x = (if 0 \<le> x then \<lfloor>x\<rfloor> else \<lceil>x\<rceil>)"

definition py_truediv :: "rat \<Rightarrow> rat \<Rightarrow> error + rat" where
  \<comment> \<open>\<^verbatim>\<open>a / b\<close>: raises on a zero divisor.\<close>
  "py_truediv a b = (if b = 0 then Inl ZeroDivisionError else Inr (a / b))"

definition py_round1 :: "rat \<Rightarrow> rat" where
  \<comment> \<open>\<^verbatim>\<open>round(x, 1)\<close>: to one decimal, a tie to the even digit.\<close>
  "py_round1 x =
     (let y = x * 10; f = \<lfloor>y\<rfloor>; d = y - of_int f
      in of_int (if d < 1 / 2 then f else if 1 / 2 < d then f + 1
                 else if even f then f else f + 1) / 10)"

definition upper_char :: "char \<Rightarrow> char" where
  "upper_char c =
     (let n = (of_char c :: nat) in if 97 \<le> n \<and> n \<le> 122 then char_of (n - 32) else c)"

definition upper :: "string \<Rightarrow> string" where
  "upper s = map upper_char s"

fun index :: "'a list \<Rightarrow> 'a \<Rightarrow> nat" where
  \<comment> \<open>\<^verbatim>\<open>xs.index(x)\<close>, for an element that occurs (the only use in the source).\<close>
  "index [] x = 0"
| "index (y # ys) x = (if y = x then 0 else Suc (index ys x))"

section \<open>The registry and its initial content\<close>

record int_data =
  d_id :: string
  d_name :: string
  d_coordinates :: "rat \<times> rat"
  d_roads :: "string list"

definition default_intersections :: "int_data list" where
  "default_intersections =
    [ \<lparr> d_id = ''INT_001'', d_name = ''MG Road - Brigade Road'',
        d_coordinates = (130351 / 10000, 802664 / 10000),
        d_roads = [''MG Road'', ''Brigade Road'', ''Vittal Mallya Road'',
                   ''Bengaluru Cantonment''] \<rparr>,
      \<lparr> d_id = ''INT_002'', d_name = ''Koramangala - Indiranagar'',
        d_coordinates = (130353 / 10000, 802788 / 10000),
        d_roads = [''Koramangala Road'', ''Indiranagar Main'', ''White Field Road'',
                   ''Old Airport Road''] \<rparr>,
      \<lparr> d_id = ''INT_003'', d_name = ''Connaught Place - Residency Road'',
        d_coordinates = (130309 / 10000, 802614 / 10000),
        d_roads = [''Connaught Place'', ''Residency Road'', ''Museum Road'',
                   ''Cubbon Park Road''] \<rparr>,
      \<lparr> d_id = ''INT_004'', d_name = ''Richmond Road - Benson Town'',
        d_coordinates = (130269 / 10000, 802527 / 10000),
        d_roads = [''Richmond Road'', ''Benson Town'', ''Palace Road'',
                   ''Tennis Court Road''] \<rparr>,
      \<lparr> d_id = ''INT_005'', d_name = ''Whitefield - Varthur Road Junction'',
        d_coordinates = (130249 / 10000, 803015 / 10000),
        d_roads = [''Whitefield Road'', ''Varthur Road'', ''Outer Ring Road'',
                   ''Electronic City Road''] \<rparr> ]"

definition directions :: "string list" where
  "directions = [''north'', ''south'', ''east'', ''west'']"

definition make_signal :: "datetime \<Rightarrow> int_data \<Rightarrow> string \<Rightarrow> TrafficSignal" where
  \<comment> \<open>The body of the inner loop of \<^verbatim>\<open>_initialize_default_intersections\<close>; the road
      indices are below 4, the length of every road list of the catalogue.\<close>
  "make_signal now d direction =
     new_TrafficSignal (d_id d @ ''_'' @ upper direction) (d_name d) (d_coordinates d)
       (if direction \<noteq> ''south'' then [d_roads d ! index directions direction]
        else [d_roads d ! ((index directions direction + 1) mod 4)])
       now"

definition make_intersection :: "datetime \<Rightarrow> int_data \<Rightarrow> Intersection" where
  "make_intersection now d =
     fold (\<lambda>direction x. x\<lparr>signals := (signals x)(direction \<mapsto> make_signal now d direction)\<rparr>)
       directions (new_Intersection (d_id d) (d_name d) (d_coordinates d) Map.empty)"

definition initialize_default_intersections ::
  "datetime \<Rightarrow> TrafficSignalCoordinator \<Rightarrow> TrafficSignalCoordinator" where
  "initialize_default_intersections now self =
     fold (\<lambda>d s. s\<lparr>intersections := (intersections s)(d_id d \<mapsto> make_intersection now d)\<rparr>)
       default_intersections self"

definition new_TrafficSignalCoordinator :: "datetime \<Rightarrow> string \<Rightarrow> TrafficSignalCoordinator" where
  \<comment> \<open>\<^verbatim>\<open>__init__\<close>; \<open>now\<close> is what \<^verbatim>\<open>datetime.now()\<close> returns.\<close>
  "new_TrafficSignalCoordinator now city =
     initialize_default_intersections now
       \<lparr> city_name = city, intersections = Map.empty, signal_timing_history = Map.empty,
         coordination_offsets = Map.empty, optimization_mode = ''balanced'' \<rparr>"

section \<open>Priority classifier and registry update\<close>

definition determine_priority :: "rat \<Rightarrow> int \<Rightarrow> int \<Rightarrow> string" where
  "determine_priority congestion aqi max_queue =
     (if congestion > 70 \<or> aqi > 150 \<or> max_queue > 50 then ''critical''
      else if congestion > 50 \<or> aqi > 100 \<or> max_queue > 30 then ''high''
      else if congestion > 30 \<or> aqi > 50 then ''normal''
      else ''low'')"

text \<open>
  The \<^verbatim>\<open>traffic_data\<close> dictionary: each of the keys \<^verbatim>\<open>'queues'\<close>, \<^verbatim>\<open>'avg_speed'\<close>
  and \<^verbatim>\<open>'congestion'\<close> may be absent, and \<^verbatim>\<open>.get\<close> supplies the default.
\<close>

record traffic_data =
  td_queues :: "(string \<rightharpoonup> int) option"
  td_avg_speed :: "rat option"
  td_congestion :: "rat option"

definition dict_get :: "('k \<rightharpoonup> 'v) \<Rightarrow> 'k \<Rightarrow> 'v \<Rightarrow> 'v" where
  "dict_get m k dflt = (case m k of None \<Rightarrow> dflt | Some v \<Rightarrow> v)"

definition max4 :: "int \<Rightarrow> int \<Rightarrow> int \<Rightarrow> int \<Rightarrow> int" where
  "max4 a b c d = max (max (max a b) c) d"

definition get_queues :: "traffic_data \<Rightarrow> (string \<rightharpoonup> int)" where
  \<comment> \<open>\<^verbatim>\<open>traffic_data.get('queues', {})\<close>\<close>
  "get_queues td = (case td_queues td of None \<Rightarrow> Map.empty | Some q \<Rightarrow> q)"

definition get_avg_speed :: "traffic_data \<Rightarrow> rat" where
  \<comment> \<open>\<^verbatim>\<open>traffic_data.get('avg_speed', 30.0)\<close>\<close>
  "get_avg_speed td = (case td_avg_speed td of None \<Rightarrow> 30 | Some v \<Rightarrow> v)"

definition get_congestion :: "traffic_data \<Rightarrow> rat" where
  \<comment> \<open>\<^verbatim>\<open>traffic_data.get('congestion', 50.0)\<close>\<close>
  "get_congestion td = (case td_congestion td of None \<Rightarrow> 50 | Some v \<Rightarrow> v)"

definition update_intersection_data ::
  "TrafficSignalCoordinator \<Rightarrow> string \<Rightarrow> traffic_data \<Rightarrow> int \<Rightarrow> bool \<times> TrafficSignalCoordinator" where
  "update_intersection_data self iid td pollution_level =
     (case intersections self iid of
        None \<Rightarrow> (False, self)
      | Some intersection \<Rightarrow>
          let queues = get_queues td;
              x1 = intersection\<lparr> queue_length_north := dict_get queues ''north'' 0,
                                queue_length_south := dict_get queues ''south'' 0,
                                queue_length_east := dict_get queues ''east'' 0,
                                queue_length_west := dict_get queues ''west'' 0 \<rparr>;
              x2 = x1\<lparr> avg_speed := get_avg_speed td, avg_congestion := get_congestion td \<rparr>;
              x3 = x2\<lparr> local_aqi := pollution_level \<rparr>;
              x4 = x3\<lparr> priority_level :=
                         determine_priority (avg_congestion x3) pollution_level
                           (max4 (queue_length_north x3) (queue_length_south x3)
                              (queue_length_east x3) (queue_length_west x3)) \<rparr>
          in (True, self\<lparr>intersections := (intersections self)(iid \<mapsto> x4)\<rparr>))"

section \<open>Signal timing optimizer\<close>

record signal_timing =
  t_green_time :: int
  t_red_time :: int
  t_yellow_time :: int
  t_all_red_time :: int
  t_cycle_time :: int
  t_queue_length :: int
  t_priority :: string

record timing_plan =
  p_intersection_id :: string
  signal_timings :: "string \<rightharpoonup> signal_timing"
  strategy :: string
  emission_reduction :: int
  flow_improvement :: int
  urgency :: string
  timestamp :: datetime

definition choose_strategy :: "Intersection \<Rightarrow> string" where
  "choose_strategy intersection =
     (if local_aqi intersection > 150 \<and> avg_congestion intersection > 60 then ''emission_priority''
      else if avg_congestion intersection > 60 then ''flow_priority''
      else if local_aqi intersection > 100 then ''emission_priority''
      else ''balanced'')"

text \<open>
  The second \<^verbatim>\<open>if\<close>/\<^verbatim>\<open>elif\<close> chain: \<open>(base_green, base_red, base_cycle,
  emission_reduction, flow_improvement)\<close> of a strategy name.
\<close>

definition strategy_parameters :: "string \<Rightarrow> int \<times> int \<times> int \<times> int \<times> int" where
  "strategy_parameters s =
     (if s = ''emission_priority'' then (70, 40, 120, 18, -5)
      else if s = ''flow_priority'' then (60, 50, 120, 5, 15)
      else (50, 60, 120, 10, 8))"

definition queue_length :: "string \<Rightarrow> Intersection \<Rightarrow> int" where
  \<comment> \<open>\<^verbatim>\<open>getattr(intersection, f'queue_length_{direction}')\<close> on the four directions.\<close>
  "queue_length direction x =
     (if direction = ''north'' then queue_length_north x
      else if direction = ''south'' then queue_length_south x
      else if direction = ''east'' then queue_length_east x
      else queue_length_west x)"

definition adjusted_green :: "int \<Rightarrow> rat \<Rightarrow> rat" where
  \<comment> \<open>\<^verbatim>\<open>max(15, min(80, base_green * (0.5 + queue_proportion)))\<close>\<close>
  "adjusted_green base_green queue_proportion =
     max 15 (min 80 (of_int base_green * (1 / 2 + queue_proportion)))"

definition adjusted_red :: "int \<Rightarrow> rat \<Rightarrow> rat" where
  \<comment> \<open>\<^verbatim>\<open>base_cycle - adjusted_green - 5\<close>\<close>
  "adjusted_red base_cycle green = of_int base_cycle - green - 5"

definition timing_entry :: "int \<Rightarrow> int \<Rightarrow> int \<Rightarrow> rat \<Rightarrow> signal_timing" where
  \<comment> \<open>The dictionary stored under \<^verbatim>\<open>signal_timings[direction]\<close>.\<close>
  "timing_entry base_green base_cycle queue queue_proportion =
     \<lparr> t_green_time = py_int (adjusted_green base_green queue_proportion),
       t_red_time = py_int (adjusted_red base_cycle (adjusted_green base_green queue_proportion)),
       t_yellow_time = 5, t_all_red_time = 3, t_cycle_time = base_cycle,
       t_queue_length = queue,
       t_priority = (if queue_proportion > 35 / 100 then ''high'' else ''normal'') \<rparr>"

definition apply_timing :: "int \<Rightarrow> int \<Rightarrow> rat \<Rightarrow> TrafficSignal \<Rightarrow> TrafficSignal" where
  \<comment> \<open>The three assignments under \<^verbatim>\<open># Update signal\<close>.\<close>
  "apply_timing base_green base_cycle queue_proportion sg =
     sg\<lparr> green_time := py_int (adjusted_green base_green queue_proportion),
         red_time := py_int (adjusted_red base_cycle (adjusted_green base_green queue_proportion)),
         cycle_time := base_cycle \<rparr>"

text \<open>
  The allocation loop over \<^verbatim>\<open>enumerate(directions)\<close>, on the pairs of a direction and
  its queue. It carries the \<^verbatim>\<open>signal_timings\<close> dictionary and the intersection's
  \<^verbatim>\<open>signals\<close> dictionary; a direction with no signal raises \<^verbatim>\<open>KeyError\<close> after the
  earlier directions have been written.
\<close>

fun allocate_green ::
  "int \<Rightarrow> int \<Rightarrow> int \<Rightarrow> (string \<times> int) list \<Rightarrow> (string \<rightharpoonup> signal_timing) \<Rightarrow>
   (string \<rightharpoonup> TrafficSignal) \<Rightarrow> (error + (string \<rightharpoonup> signal_timing)) \<times> (string \<rightharpoonup> TrafficSignal)" where
  "allocate_green base_green base_cycle total_queue [] timings sigs = (Inr timings, sigs)"
| "allocate_green base_green base_cycle total_queue ((direction, queue) # rest) timings sigs =
     (case py_truediv (of_int queue) (of_int total_queue) of
        Inl e \<Rightarrow> (Inl e, sigs)
      | Inr queue_proportion \<Rightarrow>
          (case sigs direction of
             None \<Rightarrow> (Inl (KeyError direction), sigs)
           | Some sg \<Rightarrow>
               allocate_green base_green base_cycle total_queue rest
                 (timings(direction \<mapsto> timing_entry base_green base_cycle queue queue_proportion))
                 (sigs(direction \<mapsto> apply_timing base_green base_cycle queue_proportion sg))))"

definition queues_of :: "Intersection \<Rightarrow> int list" where
  \<comment> \<open>The list \<^verbatim>\<open>queues\<close>, in the order of \<^verbatim>\<open>directions\<close>.\<close>
  "queues_of intersection =
     [queue_length_north intersection, queue_length_south intersection,
      queue_length_east intersection, queue_length_west intersection]"

definition total_queue :: "Intersection \<Rightarrow> int" where
  \<comment> \<open>\<^verbatim>\<open>max(1, sum(queues))\<close>\<close>
  "total_queue intersection = max 1 (sum_list (queues_of intersection))"

definition optimize_signal_timing ::
  "datetime \<Rightarrow> TrafficSignalCoordinator \<Rightarrow> string \<Rightarrow> (error + timing_plan) \<times> TrafficSignalCoordinator" where
  "optimize_signal_timing now self iid =
     (case intersections self iid of
        None \<Rightarrow> (Inl IntersectionNotFound, self)
      | Some intersection \<Rightarrow>
          let queues = queues_of intersection;
              strat = choose_strategy intersection;
              (base_green, base_red, base_cycle, emission, flow) = strategy_parameters strat;
              (r, sigs') = allocate_green base_green base_cycle (total_queue intersection)
                             (zip directions queues) Map.empty (signals intersection);
              self' = self\<lparr>intersections := (intersections self)(iid \<mapsto> intersection\<lparr>signals := sigs'\<rparr>)\<rparr>
          in (case r of
                Inl e \<Rightarrow> (Inl e, self')
              | Inr timings \<Rightarrow>
                  (Inr \<lparr> p_intersection_id = iid, signal_timings = timings, strategy = strat,
                         emission_reduction = emission, flow_improvement = flow,
                         urgency = priority_level intersection, timestamp = now \<rparr>, self')))"

text \<open>
  The value of \<^verbatim>\<open>queue_proportion\<close> in the loop's iteration for a direction, and the
  \<^verbatim>\<open>base_green\<close> of a strategy.
\<close>

definition queue_proportion :: "Intersection \<Rightarrow> string \<Rightarrow> rat" where
  "queue_proportion intersection direction =
     of_int (queue_length direction intersection) / of_int (total_queue intersection)"

definition base_green_of :: "string \<Rightarrow> int" where
  "base_green_of strat = fst (strategy_parameters strat)"

section \<open>Green wave coordinator\<close>

record green_wave_plan =
  corridor :: string
  corridor_intersections :: "string list"
  offsets_seconds :: "string \<rightharpoonup> int"
  target_speed_kmph :: rat
  expected_travel_time_minutes :: rat
  total_corridor_distance_km :: rat
  stops_reduced_percent :: rat
  emissions_reduced_percent :: rat
  coordination_status :: string
  gw_timestamp :: datetime

text \<open>
  The state of the loop over \<^verbatim>\<open>enumerate(intersection_ids)\<close>: the local \<^verbatim>\<open>offsets\<close>
  dictionary, the two running totals and the coordinator.
\<close>

record wave_state =
  offsets :: "string \<rightharpoonup> int"
  total_stops_reduced :: int
  total_emissions_reduced :: int
  coordinator :: TrafficSignalCoordinator

definition set_adaptive_offset :: "int \<Rightarrow> Intersection \<Rightarrow> Intersection" where
  \<comment> \<open>\<^verbatim>\<open>for direction in signals: signals[direction].adaptive_offset = offset\<close>\<close>
  "set_adaptive_offset offset x =
     x\<lparr>signals := (\<lambda>direction. map_option (\<lambda>sg. sg\<lparr>adaptive_offset := offset\<rparr>) (signals x direction))\<rparr>"

definition wave_step :: "rat \<Rightarrow> nat \<Rightarrow> string \<Rightarrow> wave_state \<Rightarrow> wave_state" where
  "wave_step travel_time i int_id w =
     (case intersections (coordinator w) int_id of
        None \<Rightarrow> w
      | Some x \<Rightarrow>
          let offset = py_int (of_nat i * travel_time);
              self = coordinator w
          in \<lparr> offsets = (offsets w)(int_id \<mapsto> offset),
               total_stops_reduced = total_stops_reduced w + 12,
               total_emissions_reduced = total_emissions_reduced w + 8,
               coordinator = self\<lparr> coordination_offsets := (coordination_offsets self)(int_id \<mapsto> offset),
                                   intersections := (intersections self)(int_id \<mapsto> set_adaptive_offset offset x) \<rparr> \<rparr>)"

fun wave_loop :: "rat \<Rightarrow> nat \<Rightarrow> string list \<Rightarrow> wave_state \<Rightarrow> wave_state" where
  "wave_loop travel_time i [] w = w"
| "wave_loop travel_time i (int_id # rest) w =
     wave_loop travel_time (Suc i) rest (wave_step travel_time i int_id w)"

definition wave_start :: "TrafficSignalCoordinator \<Rightarrow> wave_state" where
  \<comment> \<open>The loop's state before its first iteration.\<close>
  "wave_start self =
     \<lparr> offsets = Map.empty, total_stops_reduced = 0, total_emissions_reduced = 0,
       coordinator = self \<rparr>"

definition coordinate_green_wave ::
  "datetime \<Rightarrow> TrafficSignalCoordinator \<Rightarrow> string list \<Rightarrow> string \<Rightarrow> rat \<Rightarrow>
   (error + green_wave_plan) \<times> TrafficSignalCoordinator" where
  "coordinate_green_wave now self intersection_ids road_name target_speed =
     (if length intersection_ids < 2 then (Inl NeedTwoIntersections, self)
      else
        (let distance_between = 1 in
         (case py_truediv distance_between target_speed of
            Inl e \<Rightarrow> (Inl e, self)
          | Inr q \<Rightarrow>
             (let travel_time_per_intersection = q * 60;
                  w = wave_loop travel_time_per_intersection 0 intersection_ids (wave_start self);
                  self' = coordinator w;
                  n = of_nat (length intersection_ids)
              in (case py_truediv (of_int (total_stops_reduced w)) n of
                    Inl e \<Rightarrow> (Inl e, self')
                  | Inr avg_stops_reduced \<Rightarrow>
                     (case py_truediv (of_int (total_emissions_reduced w)) n of
                        Inl e \<Rightarrow> (Inl e, self')
                      | Inr avg_emissions_reduced \<Rightarrow>
                         (let total_distance = distance_between * (n - 1) in
                          (case py_truediv total_distance target_speed of
                             Inl e \<Rightarrow> (Inl e, self')
                           | Inr tt \<Rightarrow>
                              (let travel_time_minutes = tt * 60 in
                               (Inr \<lparr> corridor = road_name,
                                      corridor_intersections = intersection_ids,
                                      offsets_seconds = offsets w,
                                      target_speed_kmph = target_speed,
                                      expected_travel_time_minutes = py_round1 travel_time_minutes,
                                      total_corridor_distance_km = py_round1 total_distance,
                                      stops_reduced_percent = py_round1 avg_stops_reduced,
                                      emissions_reduced_percent = py_round1 avg_emissions_reduced,
                                      coordination_status = ''active'',
                                      gw_timestamp = now \<rparr>, self'))))))))))"

text \<open>
  The value of \<^verbatim>\<open>travel_time_per_intersection\<close> for a target speed other than zero,
  the value of \<^verbatim>\<open>offset\<close> in the loop's iteration \<open>i\<close>, and the number of list
  positions that hold an id of the registry.
\<close>

definition travel_time_per_intersection :: "rat \<Rightarrow> rat" where
  "travel_time_per_intersection target_speed = 1 / target_speed * 60"



section \<open>Conflict detector\<close>

text \<open>
  A finding is a dictionary whose \<^verbatim>\<open>'type'\<close> entry fixes its other keys: one
  constructor per type, with the values of the remaining keys in the source's order.
\<close>

datatype conflict =
    QueueOverflow string string int int string
      \<comment> \<open>direction, severity, queue_length, capacity, remediation\<close>
  | OpposingFlowsBlocked string string
      \<comment> \<open>severity, remediation\<close>
  | HighCongestion string rat string
      \<comment> \<open>severity, congestion_percent, remediation\<close>
  | AirQualityEmergency string int string
      \<comment> \<open>severity, aqi, remediation\<close>

fun conflict_type :: "conflict \<Rightarrow> string" where
  "conflict_type (QueueOverflow d s q c r) = ''queue_overflow''"
| "conflict_type (OpposingFlowsBlocked s r) = ''opposing_flows_blocked''"
| "conflict_type (HighCongestion s c r) = ''high_congestion''"
| "conflict_type (AirQualityEmergency s a r) = ''air_quality_emergency''"

fun severity :: "conflict \<Rightarrow> string" where
  "severity (QueueOverflow d s q c r) = s"
| "severity (OpposingFlowsBlocked s r) = s"
| "severity (HighCongestion s c r) = s"
| "severity (AirQualityEmergency s a r) = s"

definition queue_overflow :: "Intersection \<Rightarrow> string \<Rightarrow> conflict list" where
  "queue_overflow x direction =
     (let queue_capacity = 100; queue = queue_length direction x
      in if queue > queue_capacity
         then [QueueOverflow direction
                 (if (of_int queue :: rat) > of_int queue_capacity * (3 / 2) then ''critical'' else ''high'')
                 queue queue_capacity ''Increase green time for this direction'']
         else [])"

definition detect_conflicts ::
  "TrafficSignalCoordinator \<Rightarrow> string \<Rightarrow> conflict list \<times> TrafficSignalCoordinator" where
  "detect_conflicts self iid =
     (case intersections self iid of
        None \<Rightarrow> ([], self)
      | Some x \<Rightarrow>
          (concat (map (queue_overflow x) [''north'', ''south'', ''east'', ''west''])
           @ (if (queue_length_north x > 20 \<and> queue_length_south x > 20) \<or>
                 (queue_length_east x > 20 \<and> queue_length_west x > 20)
              then [OpposingFlowsBlocked ''high''
                      ''Distribute green time between opposing directions'']
              else [])
           @ (if avg_congestion x > 70
              then [HighCongestion ''high'' (avg_congestion x)
                      ''Implement emission priority strategy'']
              else [])
           @ (if local_aqi x > 200
              then [AirQualityEmergency ''critical'' (local_aqi x)
                      ''Switch to emission priority mode - maximize green time'']
              else []),
           self))"

section \<open>Registry invariant\<close>

text \<open>
  Every intersection of the registry has a signal for each of the four directions:
  \<^verbatim>\<open>_initialize_default_intersections\<close> creates them, and no operation removes a signal
  or adds an intersection.
\<close>

definition signals_complete :: "TrafficSignalCoordinator \<Rightarrow> bool" where
  "signals_complete self =
     (\<forall>iid x. intersections self iid = Some x \<longrightarrow> set directions \<subseteq> dom (signals x))"

section \<open>Concrete inputs\<close>

text \<open>
  The coordinator that the module's \<^verbatim>\<open>__main__\<close> block builds, at a fixed clock reading,
  and traffic readings in the shape \<^verbatim>\<open>update_intersection_data\<close> receives.
\<close>

definition bengaluru :: TrafficSignalCoordinator where
  "bengaluru = new_TrafficSignalCoordinator ''2024-01-01T00:00:00'' ''bengaluru''"

definition reading :: "int \<Rightarrow> int \<Rightarrow> int \<Rightarrow> int \<Rightarrow> rat \<Rightarrow> rat \<Rightarrow> traffic_data" where
  "reading n s e w speed cong =
     \<lparr> td_queues = Some [''north'' \<mapsto> n, ''south'' \<mapsto> s, ''east'' \<mapsto> e, ''west'' \<mapsto> w],
       td_avg_speed = Some speed, td_congestion = Some cong \<rparr>"

text \<open>
  The registry after one reading for \<^verbatim>\<open>INT_001\<close>: one vehicle queued on every
  approach (congestion 50, aqi 100), and the reading of \<^verbatim>\<open>INT_001\<close> in the module's
  \<^verbatim>\<open>__main__\<close> block (queues 45, 30, 25, 35, congestion 65.5, aqi 120).
\<close>

definition even_queues :: TrafficSignalCoordinator where
  "even_queues = snd (update_intersection_data bengaluru ''INT_001'' (reading 1 1 1 1 30 50) 100)"


text \<open>
  The registry after a reading for \<^verbatim>\<open>INT_001\<close> with 120 vehicles queued on the north
  approach and the defaults elsewhere (scenario C).
\<close>

definition north_120 :: TrafficSignalCoordinator where
  "north_120 = snd (update_intersection_data bengaluru ''INT_001'' (reading 120 0 0 0 30 50) 100)"

section \<open>The initial registry\<close>

lemma signals_make_intersection:
  "signals (make_intersection now d) direction =
     (if direction \<in> set directions then Some (make_signal now d direction) else None)"
  by (simp add: make_intersection_def directions_def new_Intersection_def)

lemma make_intersection_fields:
  "queue_length_north (make_intersection now d) = 0"
  "queue_length_south (make_intersection now d) = 0"
  "queue_length_east (make_intersection now d) = 0"
  "queue_length_west (make_intersection now d) = 0"
  "avg_speed (make_intersection now d) = 30"
  "avg_congestion (make_intersection now d) = 50"
  "local_aqi (make_intersection now d) = 100"
  "priority_level (make_intersection now d) = ''normal''"
  "intersection_id (make_intersection now d) = d_id d"
  by (simp_all add: make_intersection_def directions_def new_Intersection_def)

lemma intersections_initial:
  "intersections (new_TrafficSignalCoordinator now city) iid =
     map_option (make_intersection now) (find (\<lambda>d. d_id d = iid) (rev default_intersections))"
  by (simp add: new_TrafficSignalCoordinator_def initialize_default_intersections_def
        default_intersections_def)

lemma bengaluru_INT_001:
  "intersections bengaluru ''INT_001'' =
     Some (make_intersection ''2024-01-01T00:00:00'' (default_intersections ! 0))"
  by (simp add: bengaluru_def intersections_initial default_intersections_def)




lemma bengaluru_unknown:
  "intersections bengaluru ''INT_999'' = None"
  by (simp add: bengaluru_def intersections_initial default_intersections_def)

lemma reading_get:
  "dict_get (get_queues (reading n s e w speed cong)) ''north'' 0 = n"
  "dict_get (get_queues (reading n s e w speed cong)) ''south'' 0 = s"
  "dict_get (get_queues (reading n s e w speed cong)) ''east'' 0 = e"
  "dict_get (get_queues (reading n s e w speed cong)) ''west'' 0 = w"
  "get_avg_speed (reading n s e w speed cong) = speed"
  "get_congestion (reading n s e w speed cong) = cong"
  by (simp_all add: reading_def get_queues_def dict_get_def get_avg_speed_def get_congestion_def)

section \<open>Properties of the priority classifier\<close>

text \<open>
  Claim C2. For every triple (congestion, aqi, max_queue) the classifier returns one of
  the four tiers, chosen by the top-down cascade: critical exactly when one of the first
  thresholds (70, 150, 50) is exceeded, high exactly when none of those is and one of the
  second thresholds (50, 100, 30) is exceeded, normal exactly when none of those is and
  congestion exceeds 30 or aqi exceeds 50, low exactly in the remaining case. The reading
  of scenario A (queues 35, 25, 20, 28, congestion 53, aqi 120) classifies as high.
\<close>

theorem determine_priority_cascade:
  "determine_priority congestion aqi max_queue \<in> {''critical'', ''high'', ''normal'', ''low''} \<and>
   (determine_priority congestion aqi max_queue = ''critical'' \<longleftrightarrow>
      congestion > 70 \<or> aqi > 150 \<or> max_queue > 50) \<and>
   (determine_priority congestion aqi max_queue = ''high'' \<longleftrightarrow>
      \<not> (congestion > 70 \<or> aqi > 150 \<or> max_queue > 50) \<and>
      (congestion > 50 \<or> aqi > 100 \<or> max_queue > 30)) \<and>
   (determine_priority congestion aqi max_queue = ''normal'' \<longleftrightarrow>
      \<not> (congestion > 70 \<or> aqi > 150 \<or> max_queue > 50) \<and>
      \<not> (congestion > 50 \<or> aqi > 100 \<or> max_queue > 30) \<and>
      (congestion > 30 \<or> aqi > 50)) \<and>
   (determine_priority congestion aqi max_queue = ''low'' \<longleftrightarrow>
      \<not> (congestion > 70 \<or> aqi > 150 \<or> max_queue > 50) \<and>
      \<not> (congestion > 50 \<or> aqi > 100 \<or> max_queue > 30) \<and>
      \<not> (congestion > 30 \<or> aqi > 50)) \<and>
   determine_priority 53 120 (max4 35 25 20 28) = ''high''"
  unfolding determine_priority_def max4_def by simp

section \<open>Properties of the registry update\<close>

lemma update_unknown:
  "intersections self iid = None \<Longrightarrow> update_intersection_data self iid td aqi = (False, self)"
  by (simp add: update_intersection_data_def)

lemma update_known:
  "intersections self iid = Some x \<Longrightarrow>
   update_intersection_data self iid td aqi =
     (True, self\<lparr>intersections := (intersections self)(iid \<mapsto>
        x\<lparr> queue_length_north := dict_get (get_queues td) ''north'' 0,
           queue_length_south := dict_get (get_queues td) ''south'' 0,
           queue_length_east := dict_get (get_queues td) ''east'' 0,
           queue_length_west := dict_get (get_queues td) ''west'' 0,
           avg_speed := get_avg_speed td,
           avg_congestion := get_congestion td,
           local_aqi := aqi,
           priority_level := determine_priority (get_congestion td) aqi
             (max4 (dict_get (get_queues td) ''north'' 0) (dict_get (get_queues td) ''south'' 0)
                (dict_get (get_queues td) ''east'' 0) (dict_get (get_queues td) ''west'' 0)) \<rparr>)\<rparr>)"
  by (simp add: update_intersection_data_def Let_def)

lemma update_dom:
  "dom (intersections (snd (update_intersection_data self iid td aqi))) = dom (intersections self)"
  by (cases "intersections self iid") (auto simp: update_unknown update_known)

lemma bengaluru_updated:
  "intersections (snd (update_intersection_data bengaluru ''INT_001'' (reading n s e w sp cg) aqi)) ''INT_001'' =
     Some ((make_intersection ''2024-01-01T00:00:00'' (default_intersections ! 0))
        \<lparr> queue_length_north := n, queue_length_south := s, queue_length_east := e,
          queue_length_west := w, avg_speed := sp, avg_congestion := cg, local_aqi := aqi,
          priority_level := determine_priority cg aqi (max4 n s e w) \<rparr>)"
  by (simp add: update_known [OF bengaluru_INT_001] reading_get)

lemma max4_Max: "max4 a b c d = Max {a, b, c, d}"
  by (simp add: max4_def max.commute max.left_commute)

text \<open>
  Claim C8. For an unknown id the update returns false and the coordinator it was given;
  it never adds an id to the registry. For a known id it returns true and the coordinator
  differs from the given one only in that intersection's record, whose four queue fields,
  avg_speed, avg_congestion and local_aqi hold the reading (a key absent from the reading
  gives its default) and whose priority_level is the classifier's value on the new
  congestion, the new aqi and the greatest element of the set of the four new queues;
  the record's other fields, its signals among them, are the old ones.
\<close>

theorem update_intersection_data_contract:
  "(intersections self iid = None \<longrightarrow>
      update_intersection_data self iid td aqi = (False, self)) \<and>
   (\<forall>x. intersections self iid = Some x \<longrightarrow>
      update_intersection_data self iid td aqi =
        (True, self\<lparr>intersections := (intersections self)(iid \<mapsto>
           x\<lparr> queue_length_north := dict_get (get_queues td) ''north'' 0,
              queue_length_south := dict_get (get_queues td) ''south'' 0,
              queue_length_east := dict_get (get_queues td) ''east'' 0,
              queue_length_west := dict_get (get_queues td) ''west'' 0,
              avg_speed := get_avg_speed td,
              avg_congestion := get_congestion td,
              local_aqi := aqi,
              priority_level := determine_priority (get_congestion td) aqi
                (Max {dict_get (get_queues td) ''north'' 0, dict_get (get_queues td) ''south'' 0,
                      dict_get (get_queues td) ''east'' 0, dict_get (get_queues td) ''west'' 0}) \<rparr>)\<rparr>)) \<and>
   dom (intersections (snd (update_intersection_data self iid td aqi))) = dom (intersections self)"
  using update_unknown [of self iid td aqi] update_known [of self iid _ td aqi]
    update_dom [of self iid td aqi]
  by (simp add: max4_Max)

text \<open>
  The two readings below differ from the defaults in every field. In the first the
  largest queue is the third one and alone decides the tier (55 > 50 gives critical,
  where congestion 20, aqi 40 and each other queue give low); in the second, scenario A,
  congestion decides.
\<close>

theorem update_intersection_data_contract_witness:
  "update_intersection_data bengaluru ''INT_999'' (reading 10 20 55 5 25 20) 40 = (False, bengaluru) \<and>
   fst (update_intersection_data bengaluru ''INT_001'' (reading 10 20 55 5 25 20) 40) \<and>
   map_option (\<lambda>x. (queue_length_north x, queue_length_south x, queue_length_east x,
                    queue_length_west x, avg_speed x, avg_congestion x, local_aqi x,
                    priority_level x, intersection_id x))
     (intersections (snd (update_intersection_data bengaluru ''INT_001''
        (reading 10 20 55 5 25 20) 40)) ''INT_001'')
     = Some (10, 20, 55, 5, 25, 20, 40, ''critical'', ''INT_001'') \<and>
   map_option priority_level
     (intersections (snd (update_intersection_data bengaluru ''INT_001''
        (reading 35 25 20 28 25 53) 120)) ''INT_001'') = Some ''high''"
  using update_intersection_data_contract [of bengaluru "''INT_999''" "reading 10 20 55 5 25 20" 40]
    update_intersection_data_contract [of bengaluru "''INT_001''" "reading 10 20 55 5 25 20" 40]
    update_intersection_data_contract [of bengaluru "''INT_001''" "reading 35 25 20 28 25 53" 120]
  by (simp add: bengaluru_unknown bengaluru_INT_001 reading_get make_intersection_fields
        determine_priority_def default_intersections_def)

section \<open>Properties of the signal timing optimizer\<close>

lemma allocate_green_zero:
  "allocate_green bg bc 0 ((dir, q) # rest) tm sigs = (Inl ZeroDivisionError, sigs)"
  by (simp add: py_truediv_def)

lemma allocate_green_missing:
  "tq \<noteq> 0 \<Longrightarrow> sigs dir = None \<Longrightarrow>
   allocate_green bg bc tq ((dir, q) # rest) tm sigs = (Inl (KeyError dir), sigs)"
  by (simp add: py_truediv_def)

lemma allocate_green_step:
  "tq \<noteq> 0 \<Longrightarrow> sigs dir = Some sg \<Longrightarrow>
   allocate_green bg bc tq ((dir, q) # rest) tm sigs =
     allocate_green bg bc tq rest
       (tm(dir \<mapsto> timing_entry bg bc q (of_int q / of_int tq)))
       (sigs(dir \<mapsto> apply_timing bg bc (of_int q / of_int tq) sg))"
  by (simp add: py_truediv_def)

declare allocate_green.simps(2) [simp del]

lemma allocate_green_no_zero_division:
  "tq \<noteq> 0 \<Longrightarrow> fst (allocate_green bg bc tq dqs tm sigs) \<noteq> Inl ZeroDivisionError"
proof (induction dqs arbitrary: tm sigs)
  case Nil
  show ?case by simp
next
  case (Cons a dqs)
  obtain dir q where a: "a = (dir, q)" by (cases a)
  show ?case
  proof (cases "sigs dir")
    case None
    with Cons.prems show ?thesis by (simp add: a allocate_green_missing)
  next
    case (Some sg)
    with Cons show ?thesis by (simp add: a allocate_green_step)
  qed
qed

lemma allocate_green_frame:
  "snd (allocate_green bg bc tq dqs tm sigs) d =
     (case sigs d of None \<Rightarrow> None
      | Some sg \<Rightarrow> Some (sg\<lparr> green_time := green_time (the (snd (allocate_green bg bc tq dqs tm sigs) d)),
                             red_time := red_time (the (snd (allocate_green bg bc tq dqs tm sigs) d)),
                             cycle_time := cycle_time (the (snd (allocate_green bg bc tq dqs tm sigs) d)) \<rparr>))"
proof (induction dqs arbitrary: tm sigs)
  case Nil
  show ?case by (simp split: option.splits)
next
  case (Cons a dqs)
  obtain dir q where a: "a = (dir, q)" by (cases a)
  show ?case
  proof (cases "tq = 0 \<or> sigs dir = None")
    case True
    then have "snd (allocate_green bg bc tq (a # dqs) tm sigs) = sigs"
      by (cases "tq = 0") (auto simp: a allocate_green_zero allocate_green_missing)
    then show ?thesis by (simp split: option.splits)
  next
    case False
    then obtain s0 where s0: "sigs dir = Some s0" and t: "tq \<noteq> 0" by auto
    let ?tm = "tm(dir \<mapsto> timing_entry bg bc q (of_int q / of_int tq))"
    let ?sigs = "sigs(dir \<mapsto> apply_timing bg bc (of_int q / of_int tq) s0)"
    have step: "allocate_green bg bc tq (a # dqs) tm sigs = allocate_green bg bc tq dqs ?tm ?sigs"
      using t s0 by (simp add: a allocate_green_step)
    show ?thesis
    proof (cases "d = dir")
      case True
      show ?thesis
        unfolding step
        by (subst Cons.IH) (simp add: True s0 apply_timing_def)
    next
      case False
      show ?thesis
        unfolding step
        by (subst Cons.IH) (simp add: False)
    qed
  qed
qed


lemma allocate_green_four:
  assumes "tq \<noteq> 0"
    and "sigs ''north'' = Some sn" and "sigs ''south'' = Some ss"
    and "sigs ''east'' = Some se" and "sigs ''west'' = Some sw"
  shows "allocate_green bg bc tq [(''north'', qn), (''south'', qs), (''east'', qe), (''west'', qw)] tm sigs =
    (Inr (tm(''north'' \<mapsto> timing_entry bg bc qn (of_int qn / of_int tq),
             ''south'' \<mapsto> timing_entry bg bc qs (of_int qs / of_int tq),
             ''east'' \<mapsto> timing_entry bg bc qe (of_int qe / of_int tq),
             ''west'' \<mapsto> timing_entry bg bc qw (of_int qw / of_int tq))),
     sigs(''north'' \<mapsto> apply_timing bg bc (of_int qn / of_int tq) sn,
          ''south'' \<mapsto> apply_timing bg bc (of_int qs / of_int tq) ss,
          ''east'' \<mapsto> apply_timing bg bc (of_int qe / of_int tq) se,
          ''west'' \<mapsto> apply_timing bg bc (of_int qw / of_int tq) sw))"
  using assms by (simp add: allocate_green_step)

lemma total_queue_pos: "0 < total_queue x"
  by (simp add: total_queue_def)

lemma optimize_known:
  assumes x: "intersections self iid = Some x"
    and "signals x ''north'' = Some sn" and "signals x ''south'' = Some ss"
    and "signals x ''east'' = Some se" and "signals x ''west'' = Some sw"
  shows "optimize_signal_timing now self iid =
    (Inr \<lparr> p_intersection_id = iid,
           signal_timings =
             [''north'' \<mapsto> timing_entry (base_green_of (choose_strategy x)) 120 (queue_length_north x) (queue_proportion x ''north''),
              ''south'' \<mapsto> timing_entry (base_green_of (choose_strategy x)) 120 (queue_length_south x) (queue_proportion x ''south''),
              ''east'' \<mapsto> timing_entry (base_green_of (choose_strategy x)) 120 (queue_length_east x) (queue_proportion x ''east''),
              ''west'' \<mapsto> timing_entry (base_green_of (choose_strategy x)) 120 (queue_length_west x) (queue_proportion x ''west'')],
           strategy = choose_strategy x,
           emission_reduction = fst (snd (snd (snd (strategy_parameters (choose_strategy x))))),
           flow_improvement = snd (snd (snd (snd (strategy_parameters (choose_strategy x))))),
           urgency = priority_level x, timestamp = now \<rparr>,
     self\<lparr>intersections := (intersections self)(iid \<mapsto> x\<lparr>signals := (signals x)
        (''north'' \<mapsto> apply_timing (base_green_of (choose_strategy x)) 120 (queue_proportion x ''north'') sn,
         ''south'' \<mapsto> apply_timing (base_green_of (choose_strategy x)) 120 (queue_proportion x ''south'') ss,
         ''east'' \<mapsto> apply_timing (base_green_of (choose_strategy x)) 120 (queue_proportion x ''east'') se,
         ''west'' \<mapsto> apply_timing (base_green_of (choose_strategy x)) 120 (queue_proportion x ''west'') sw)\<rparr>)\<rparr>)"
proof -
  obtain bg br bc em fl where sp: "strategy_parameters (choose_strategy x) = (bg, br, bc, em, fl)"
    by (cases "strategy_parameters (choose_strategy x)") auto
  then have bc: "bc = 120" and bg: "base_green_of (choose_strategy x) = bg"
    by (auto simp: strategy_parameters_def base_green_of_def split: if_splits)
  have tq: "total_queue x \<noteq> 0" using total_queue_pos [of x] by simp
  show ?thesis
    using assms tq
    by (simp add: optimize_signal_timing_def sp bc bg queues_of_def directions_def
          allocate_green_four queue_proportion_def queue_length_def)
qed


lemma signals_present:
  assumes "set directions \<subseteq> dom (signals x)"
  obtains sn ss se sw where "signals x ''north'' = Some sn" "signals x ''south'' = Some ss"
    "signals x ''east'' = Some se" "signals x ''west'' = Some sw"
  using assms unfolding directions_def by auto

lemma adjusted_green_range: "15 \<le> adjusted_green bg qp \<and> adjusted_green bg qp \<le> 80"
  by (simp add: adjusted_green_def)

lemma py_int_green_range:
  "15 \<le> py_int (adjusted_green bg qp) \<and> py_int (adjusted_green bg qp) \<le> 80"
  using adjusted_green_range [of bg qp] by (simp add: py_int_def le_floor_iff floor_le_iff)

lemma py_int_green_red_sum:
  "py_int (adjusted_green bg qp) + py_int (adjusted_red 120 (adjusted_green bg qp)) \<in> {114, 115}"
proof -
  let ?g = "adjusted_green bg qp"
  have r: "15 \<le> ?g" "?g \<le> 80" using adjusted_green_range [of bg qp] by simp_all
  then have "py_int ?g = \<lfloor>?g\<rfloor>" "py_int (adjusted_red 120 ?g) = \<lfloor>115 - ?g\<rfloor>"
    by (simp_all add: py_int_def adjusted_red_def)
  moreover have "\<lfloor>?g\<rfloor> + \<lfloor>115 - ?g\<rfloor> = 114 \<or> \<lfloor>?g\<rfloor> + \<lfloor>115 - ?g\<rfloor> = 115"
    by linarith
  ultimately show ?thesis by auto
qed

lemma optimize_plan_timing:
  assumes "intersections self iid = Some x" and "set directions \<subseteq> dom (signals x)"
    and "d \<in> set directions"
  shows "\<exists>p. fst (optimize_signal_timing now self iid) = Inr p \<and>
           signal_timings p d = Some (timing_entry (base_green_of (choose_strategy x)) 120
             (queue_length d x) (queue_proportion x d))"
proof -
  from assms(2) obtain sn ss se sw where
    sg: "signals x ''north'' = Some sn" "signals x ''south'' = Some ss"
        "signals x ''east'' = Some se" "signals x ''west'' = Some sw"
    by (rule signals_present)
  from assms(3) consider "d = ''north''" | "d = ''south''" | "d = ''east''" | "d = ''west''"
    by (auto simp: directions_def)
  then show ?thesis
    by cases (simp_all add: optimize_known [OF assms(1) sg] queue_length_def)
qed

lemma optimize_stored_signal:
  assumes "intersections self iid = Some x" and "set directions \<subseteq> dom (signals x)"
    and "d \<in> set directions"
  shows "\<exists>x' sg. intersections (snd (optimize_signal_timing now self iid)) iid = Some x' \<and>
           signals x d = Some sg \<and>
           signals x' d = Some (apply_timing (base_green_of (choose_strategy x)) 120
             (queue_proportion x d) sg)"
proof -
  from assms(2) obtain sn ss se sw where
    sg: "signals x ''north'' = Some sn" "signals x ''south'' = Some ss"
        "signals x ''east'' = Some se" "signals x ''west'' = Some sw"
    by (rule signals_present)
  from assms(3) consider "d = ''north''" | "d = ''south''" | "d = ''east''" | "d = ''west''"
    by (auto simp: directions_def)
  then show ?thesis
    by cases (simp_all add: optimize_known [OF assms(1) sg] sg)
qed

lemma optimize_green_time_range:
  assumes "intersections self iid = Some x" and "set directions \<subseteq> dom (signals x)"
    and "d \<in> set directions"
  shows "\<exists>p t. fst (optimize_signal_timing now self iid) = Inr p \<and> signal_timings p d = Some t \<and>
           15 \<le> t_green_time t \<and> t_green_time t \<le> 80 \<and>
           t_green_time t + t_red_time t \<in> {114, 115}"
    and "\<exists>x' sg. intersections (snd (optimize_signal_timing now self iid)) iid = Some x' \<and>
           signals x' d = Some sg \<and> 15 \<le> green_time sg \<and> green_time sg \<le> 80 \<and>
           green_time sg + red_time sg \<in> {114, 115}"
proof -
  let ?bg = "base_green_of (choose_strategy x)"
  let ?t = "timing_entry ?bg 120 (queue_length d x) (queue_proportion x d)"
  have "15 \<le> t_green_time ?t \<and> t_green_time ?t \<le> 80 \<and> t_green_time ?t + t_red_time ?t \<in> {114, 115}"
    using py_int_green_range [of ?bg "queue_proportion x d"]
      py_int_green_red_sum [of ?bg "queue_proportion x d"]
    by (simp add: timing_entry_def)
  with optimize_plan_timing [OF assms, of now]
  show "\<exists>p t. fst (optimize_signal_timing now self iid) = Inr p \<and> signal_timings p d = Some t \<and>
           15 \<le> t_green_time t \<and> t_green_time t \<le> 80 \<and>
           t_green_time t + t_red_time t \<in> {114, 115}"
    by blast
  have "15 \<le> green_time (apply_timing ?bg 120 (queue_proportion x d) sg) \<and>
        green_time (apply_timing ?bg 120 (queue_proportion x d) sg) \<le> 80 \<and>
        green_time (apply_timing ?bg 120 (queue_proportion x d) sg) +
          red_time (apply_timing ?bg 120 (queue_proportion x d) sg) \<in> {114, 115}" for sg
    using py_int_green_range [of ?bg "queue_proportion x d"]
      py_int_green_red_sum [of ?bg "queue_proportion x d"]
    by (simp add: apply_timing_def)
  with optimize_stored_signal [OF assms, of now]
  show "\<exists>x' sg. intersections (snd (optimize_signal_timing now self iid)) iid = Some x' \<and>
           signals x' d = Some sg \<and> 15 \<le> green_time sg \<and> green_time sg \<le> 80 \<and>
           green_time sg + red_time sg \<in> {114, 115}"
    by blast
qed

lemma optimize_signal_timing_frame:
  "city_name (snd (optimize_signal_timing now self iid)) = city_name self \<and>
   signal_timing_history (snd (optimize_signal_timing now self iid)) = signal_timing_history self \<and>
   coordination_offsets (snd (optimize_signal_timing now self iid)) = coordination_offsets self \<and>
   optimization_mode (snd (optimize_signal_timing now self iid)) = optimization_mode self \<and>
   (\<forall>j. j \<noteq> iid \<longrightarrow>
      intersections (snd (optimize_signal_timing now self iid)) j = intersections self j) \<and>
   (case intersections self iid of
      None \<Rightarrow> intersections (snd (optimize_signal_timing now self iid)) iid = None
    | Some x \<Rightarrow>
        (\<exists>x'. intersections (snd (optimize_signal_timing now self iid)) iid = Some x' \<and>
           x' = x\<lparr>signals := signals x'\<rparr> \<and>
           (\<forall>d. case signals x d of
                  None \<Rightarrow> signals x' d = None
                | Some sg \<Rightarrow> (\<exists>g r c. signals x' d =
                    Some (sg\<lparr>green_time := g, red_time := r, cycle_time := c\<rparr>)))))"
proof (cases "intersections self iid")
  case None
  then show ?thesis by (simp add: optimize_signal_timing_def)
next
  case (Some x)
  obtain bg br bc em fl where sp: "strategy_parameters (choose_strategy x) = (bg, br, bc, em, fl)"
    by (cases "strategy_parameters (choose_strategy x)") auto
  let ?a = "allocate_green bg bc (total_queue x) (zip directions (queues_of x)) Map.empty (signals x)"
  have self': "snd (optimize_signal_timing now self iid) =
      self\<lparr>intersections := (intersections self)(iid \<mapsto> x\<lparr>signals := snd ?a\<rparr>)\<rparr>"
    by (simp add: optimize_signal_timing_def Some sp split_beta Let_def split: sum.splits)
  have "\<forall>d. case signals x d of
                  None \<Rightarrow> snd ?a d = None
                | Some sg \<Rightarrow> (\<exists>g r c. snd ?a d =
                    Some (sg\<lparr>green_time := g, red_time := r, cycle_time := c\<rparr>))"
  proof
    fix d
    show "case signals x d of
                  None \<Rightarrow> snd ?a d = None
                | Some sg \<Rightarrow> (\<exists>g r c. snd ?a d =
                    Some (sg\<lparr>green_time := g, red_time := r, cycle_time := c\<rparr>))"
      by (subst allocate_green_frame, subst (2) allocate_green_frame)
         (auto split: option.splits)
  qed
  then show ?thesis
    by (simp add: self' Some cong: option.case_cong)
qed

lemma optimize_never_divides_by_zero:
  "fst (optimize_signal_timing now self iid) \<noteq> Inl ZeroDivisionError"
proof (cases "intersections self iid")
  case None
  then show ?thesis by (simp add: optimize_signal_timing_def)
next
  case (Some x)
  obtain bg br bc em fl where sp: "strategy_parameters (choose_strategy x) = (bg, br, bc, em, fl)"
    by (cases "strategy_parameters (choose_strategy x)") auto
  have tq: "total_queue x \<noteq> 0" using total_queue_pos [of x] by simp
  from allocate_green_no_zero_division [OF tq, of bg bc "zip directions (queues_of x)" Map.empty "signals x"]
  show ?thesis
    by (auto simp: optimize_signal_timing_def Some sp split_beta Let_def split: sum.splits)
qed



text \<open>
  Claim C1, at the registry \<open>even_queues\<close> (one vehicle on every approach of
  \<^verbatim>\<open>INT_001\<close>, balanced strategy): the clamped green time is 37.5 and the red time
  computed from it is 77.5; both are truncated on their own, so the reported and the
  stored north timing is green 37 and red 77, while 120 - 37 - 5 is 78.
\<close>

theorem optimize_red_time_off_by_one:
  "(case fst (optimize_signal_timing ''2024-01-01T00:05:00'' even_queues ''INT_001'') of
      Inl e \<Rightarrow> None
    | Inr p \<Rightarrow> map_option (\<lambda>t. (t_green_time t, t_red_time t, 120 - t_green_time t - 5))
               (signal_timings p ''north'')) = Some (37, 77, 78) \<and>
   (case intersections (snd (optimize_signal_timing ''2024-01-01T00:05:00'' even_queues ''INT_001'')) ''INT_001'' of
      None \<Rightarrow> None
    | Some x \<Rightarrow> map_option (\<lambda>sg. (green_time sg, red_time sg, 120 - green_time sg - 5))
                 (signals x ''north'')) = Some (37, 77, 78)"
proof -
  let ?x = "(make_intersection ''2024-01-01T00:00:00'' (default_intersections ! 0))
        \<lparr> queue_length_north := 1, queue_length_south := 1, queue_length_east := 1,
          queue_length_west := 1, avg_speed := 30, avg_congestion := 50, local_aqi := 100,
          priority_level := determine_priority 50 100 (max4 1 1 1 1) \<rparr>"
  have known: "intersections even_queues ''INT_001'' = Some ?x"
    unfolding even_queues_def by (rule bengaluru_updated)
  have sg:
    "signals ?x ''north'' = Some (make_signal ''2024-01-01T00:00:00'' (default_intersections ! 0) ''north'')"
    "signals ?x ''south'' = Some (make_signal ''2024-01-01T00:00:00'' (default_intersections ! 0) ''south'')"
    "signals ?x ''east'' = Some (make_signal ''2024-01-01T00:00:00'' (default_intersections ! 0) ''east'')"
    "signals ?x ''west'' = Some (make_signal ''2024-01-01T00:00:00'' (default_intersections ! 0) ''west'')"
    by (simp_all add: signals_make_intersection directions_def)
  have qp: "queue_proportion ?x ''north'' = 1 / 4"
    by (simp add: queue_proportion_def queue_length_def total_queue_def queues_of_def)
  have bg: "base_green_of (choose_strategy ?x) = 50"
    by (simp add: base_green_of_def choose_strategy_def strategy_parameters_def)
  have g: "py_int (adjusted_green 50 (1 / 4)) = 37"
    by (simp add: adjusted_green_def py_int_def floor_eq_iff)
  have r: "py_int (adjusted_red 120 (adjusted_green 50 (1 / 4))) = 77"
    by (simp add: adjusted_green_def adjusted_red_def py_int_def floor_eq_iff)
  show ?thesis
    by (simp add: optimize_known [OF known sg] directions_def qp bg g r
          timing_entry_def apply_timing_def)
qed


text \<open>
  Claim C10, at the same registry: after the optimizer has run, the stored north signal
  of \<^verbatim>\<open>INT_001\<close> holds green 37, red 77, yellow 5 and all-red 5, which add up to 124,
  with cycle_time 120; the plan reports all_red_time 3 for the same direction.
\<close>

theorem stored_timing_sum_124:
  "(case intersections (snd (optimize_signal_timing ''2024-01-01T00:05:00'' even_queues ''INT_001'')) ''INT_001'' of
      None \<Rightarrow> None
    | Some x \<Rightarrow> map_option (\<lambda>sg. (green_time sg, red_time sg, yellow_time sg, all_red_time sg,
                                  green_time sg + red_time sg + yellow_time sg + all_red_time sg,
                                  cycle_time sg))
                 (signals x ''north'')) = Some (37, 77, 5, 5, 124, 120) \<and>
   (case fst (optimize_signal_timing ''2024-01-01T00:05:00'' even_queues ''INT_001'') of
      Inl e \<Rightarrow> None
    | Inr p \<Rightarrow> map_option t_all_red_time (signal_timings p ''north'')) = Some 3"
proof -
  let ?x = "(make_intersection ''2024-01-01T00:00:00'' (default_intersections ! 0))
        \<lparr> queue_length_north := 1, queue_length_south := 1, queue_length_east := 1,
          queue_length_west := 1, avg_speed := 30, avg_congestion := 50, local_aqi := 100,
          priority_level := determine_priority 50 100 (max4 1 1 1 1) \<rparr>"
  have known: "intersections even_queues ''INT_001'' = Some ?x"
    unfolding even_queues_def by (rule bengaluru_updated)
  have sg:
    "signals ?x ''north'' = Some (make_signal ''2024-01-01T00:00:00'' (default_intersections ! 0) ''north'')"
    "signals ?x ''south'' = Some (make_signal ''2024-01-01T00:00:00'' (default_intersections ! 0) ''south'')"
    "signals ?x ''east'' = Some (make_signal ''2024-01-01T00:00:00'' (default_intersections ! 0) ''east'')"
    "signals ?x ''west'' = Some (make_signal ''2024-01-01T00:00:00'' (default_intersections ! 0) ''west'')"
    by (simp_all add: signals_make_intersection directions_def)
  have qp: "queue_proportion ?x ''north'' = 1 / 4"
    by (simp add: queue_proportion_def queue_length_def total_queue_def queues_of_def)
  have bg: "base_green_of (choose_strategy ?x) = 50"
    by (simp add: base_green_of_def choose_strategy_def strategy_parameters_def)
  have g: "py_int (adjusted_green 50 (1 / 4)) = 37"
    by (simp add: adjusted_green_def py_int_def floor_eq_iff)
  have r: "py_int (adjusted_red 120 (adjusted_green 50 (1 / 4))) = 77"
    by (simp add: adjusted_green_def adjusted_red_def py_int_def floor_eq_iff)
  show ?thesis
    by (simp add: optimize_known [OF known sg] directions_def qp bg g r
          timing_entry_def apply_timing_def make_signal_def new_TrafficSignal_def)
qed

section \<open>Properties of the green wave coordinator\<close>


lemma wave_step_unknown:
  "intersections (coordinator w) a = None \<Longrightarrow> wave_step t i a w = w"
  by (simp add: wave_step_def)

lemma wave_step_known:
  "intersections (coordinator w) a = Some x \<Longrightarrow>
   wave_step t i a w =
     \<lparr> offsets = (offsets w)(a \<mapsto> py_int (of_nat i * t)),
       total_stops_reduced = total_stops_reduced w + 12,
       total_emissions_reduced = total_emissions_reduced w + 8,
       coordinator = (coordinator w)
         \<lparr> coordination_offsets := (coordination_offsets (coordinator w))(a \<mapsto> py_int (of_nat i * t)),
           intersections := (intersections (coordinator w))(a \<mapsto> set_adaptive_offset (py_int (of_nat i * t)) x) \<rparr> \<rparr>"
  by (simp add: wave_step_def Let_def)

lemma wave_step_dom:
  "dom (intersections (coordinator (wave_step t i a w))) = dom (intersections (coordinator w))"
  by (cases "intersections (coordinator w) a") (auto simp: wave_step_unknown wave_step_known)

lemma wave_loop_dom:
  "dom (intersections (coordinator (wave_loop t i ids w))) = dom (intersections (coordinator w))"
  by (induction ids arbitrary: i w) (simp_all add: wave_step_dom)






lemma coordinate_too_few:
  "length ids < 2 \<Longrightarrow>
   coordinate_green_wave now self ids road speed = (Inl NeedTwoIntersections, self)"
  by (simp add: coordinate_green_wave_def)

lemma coordinate_zero_speed:
  "2 \<le> length ids \<Longrightarrow>
   coordinate_green_wave now self ids road 0 = (Inl ZeroDivisionError, self)"
  by (simp add: coordinate_green_wave_def py_truediv_def)

lemma coordinate_plan:
  assumes "2 \<le> length ids" and "speed \<noteq> 0"
  shows "coordinate_green_wave now self ids road speed =
    (Inr \<lparr> corridor = road, corridor_intersections = ids,
           offsets_seconds =
             offsets (wave_loop (travel_time_per_intersection speed) 0 ids (wave_start self)),
           target_speed_kmph = speed,
           expected_travel_time_minutes = py_round1 ((of_nat (length ids) - 1) / speed * 60),
           total_corridor_distance_km = py_round1 (of_nat (length ids) - 1),
           stops_reduced_percent = py_round1
             (of_int (total_stops_reduced
                (wave_loop (travel_time_per_intersection speed) 0 ids (wave_start self)))
              / of_nat (length ids)),
           emissions_reduced_percent = py_round1
             (of_int (total_emissions_reduced
                (wave_loop (travel_time_per_intersection speed) 0 ids (wave_start self)))
              / of_nat (length ids)),
           coordination_status = ''active'', gw_timestamp = now \<rparr>,
     coordinator (wave_loop (travel_time_per_intersection speed) 0 ids (wave_start self)))"
proof -
  from assms(1) have n: "\<not> length ids < 2" "(of_nat (length ids) :: rat) \<noteq> 0" by auto
  show ?thesis
    using assms(2) n
    by (simp add: coordinate_green_wave_def py_truediv_def Let_def
          travel_time_per_intersection_def)
qed





lemma signals_set_adaptive_offset:
  "signals (set_adaptive_offset off x) d = map_option (\<lambda>sg. sg\<lparr>adaptive_offset := off\<rparr>) (signals x d)"
  by (simp add: set_adaptive_offset_def)















text \<open>
  Claim C5, at target speed 0 with two known ids: the first division of the coordinator
  raises ZeroDivisionError, before the registry is touched.
\<close>

theorem zero_target_speed_raises:
  "coordinate_green_wave ''2024-01-01T00:05:00'' bengaluru [''INT_001'', ''INT_002'']
     ''main_corridor'' 0 = (Inl ZeroDivisionError, bengaluru)"
  by (simp add: coordinate_zero_speed)




section \<open>Properties of the conflict detector\<close>

lemma detect_unknown:
  "intersections self iid = None \<Longrightarrow> detect_conflicts self iid = ([], self)"
  by (simp add: detect_conflicts_def)

lemma detect_pure: "snd (detect_conflicts self iid) = self"
  by (simp add: detect_conflicts_def split: option.splits)

lemma detect_single_overflow:
  assumes x: "intersections self iid = Some x"
    and d: "d \<in> set directions" and q: "queue_length d x = 120"
    and others: "\<forall>d'\<in>set directions. d' \<noteq> d \<longrightarrow> queue_length d' x \<le> 100"
    and opposing: "\<not> ((queue_length_north x > 20 \<and> queue_length_south x > 20) \<or>
                      (queue_length_east x > 20 \<and> queue_length_west x > 20))"
    and cong: "avg_congestion x \<le> 70" and aqi: "local_aqi x \<le> 200"
  shows "fst (detect_conflicts self iid) =
           [QueueOverflow d ''high'' 120 100 ''Increase green time for this direction'']"
proof -
  from d consider "d = ''north''" | "d = ''south''" | "d = ''east''" | "d = ''west''"
    by (auto simp: directions_def)
  then show ?thesis
  proof cases
    case 1
    with q others have "queue_length_north x = 120" "queue_length_south x \<le> 100"
      "queue_length_east x \<le> 100" "queue_length_west x \<le> 100"
      by (simp_all add: directions_def queue_length_def)
    with opposing cong aqi show ?thesis
      by (simp add: detect_conflicts_def x 1 queue_overflow_def queue_length_def)
  next
    case 2
    with q others have "queue_length_south x = 120" "queue_length_north x \<le> 100"
      "queue_length_east x \<le> 100" "queue_length_west x \<le> 100"
      by (simp_all add: directions_def queue_length_def)
    with opposing cong aqi show ?thesis
      by (simp add: detect_conflicts_def x 2 queue_overflow_def queue_length_def)
  next
    case 3
    with q others have "queue_length_east x = 120" "queue_length_north x \<le> 100"
      "queue_length_south x \<le> 100" "queue_length_west x \<le> 100"
      by (simp_all add: directions_def queue_length_def)
    with opposing cong aqi show ?thesis
      by (simp add: detect_conflicts_def x 3 queue_overflow_def queue_length_def)
  next
    case 4
    with q others have "queue_length_west x = 120" "queue_length_north x \<le> 100"
      "queue_length_south x \<le> 100" "queue_length_east x \<le> 100"
      by (simp_all add: directions_def queue_length_def)
    with opposing cong aqi show ?thesis
      by (simp add: detect_conflicts_def x 4 queue_overflow_def queue_length_def)
  qed
qed

text \<open>
  Claim C9. For an unknown id the detector returns the empty list, and for every id it
  returns the coordinator it was given. For a known intersection one of whose queues is
  120 while no other rule fires (the other queues at most 100, no opposing pair above 20
  on both sides, congestion at most 70, aqi at most 200) it returns exactly one finding:
  a queue_overflow for that direction, of severity high.
\<close>

theorem detect_conflicts_contract:
  "(intersections self iid = None \<longrightarrow> fst (detect_conflicts self iid) = []) \<and>
   snd (detect_conflicts self iid) = self \<and>
   (\<forall>x d. intersections self iid = Some x \<and> d \<in> set directions \<and> queue_length d x = 120 \<and>
      (\<forall>d'\<in>set directions. d' \<noteq> d \<longrightarrow> queue_length d' x \<le> 100) \<and>
      \<not> ((queue_length_north x > 20 \<and> queue_length_south x > 20) \<or>
         (queue_length_east x > 20 \<and> queue_length_west x > 20)) \<and>
      avg_congestion x \<le> 70 \<and> local_aqi x \<le> 200 \<longrightarrow>
      (\<exists>c. fst (detect_conflicts self iid) = [c] \<and>
           c = QueueOverflow d ''high'' 120 100 ''Increase green time for this direction'' \<and>
           conflict_type c = ''queue_overflow'' \<and> severity c = ''high''))"
  using detect_unknown [of self iid] detect_pure [of self iid]
    detect_single_overflow [of self iid]
  by auto

theorem detect_conflicts_contract_witness:
  "fst (detect_conflicts north_120 ''INT_999'') = [] \<and>
   detect_conflicts north_120 ''INT_001'' =
     ([QueueOverflow ''north'' ''high'' 120 100 ''Increase green time for this direction''], north_120) \<and>
   map conflict_type (fst (detect_conflicts north_120 ''INT_001'')) = [''queue_overflow''] \<and>
   map severity (fst (detect_conflicts north_120 ''INT_001'')) = [''high'']"
proof -
  let ?x = "(make_intersection ''2024-01-01T00:00:00'' (default_intersections ! 0))
        \<lparr> queue_length_north := 120, queue_length_south := 0, queue_length_east := 0,
          queue_length_west := 0, avg_speed := 30, avg_congestion := 50, local_aqi := 100,
          priority_level := determine_priority 50 100 (max4 120 0 0 0) \<rparr>"
  have known: "intersections north_120 ''INT_001'' = Some ?x"
    unfolding north_120_def by (rule bengaluru_updated)
  have unknown: "intersections north_120 ''INT_999'' = None"
    unfolding north_120_def
    by (simp add: update_known [OF bengaluru_INT_001] bengaluru_unknown)
  have pre: "''north'' \<in> set directions \<and> queue_length ''north'' ?x = 120 \<and>
      (\<forall>d'\<in>set directions. d' \<noteq> ''north'' \<longrightarrow> queue_length d' ?x \<le> 100) \<and>
      \<not> ((queue_length_north ?x > 20 \<and> queue_length_south ?x > 20) \<or>
         (queue_length_east ?x > 20 \<and> queue_length_west ?x > 20)) \<and>
      avg_congestion ?x \<le> 70 \<and> local_aqi ?x \<le> 200"
    by (simp add: directions_def queue_length_def)
  from detect_conflicts_contract [of north_120 "''INT_999''"] unknown
  have 1: "fst (detect_conflicts north_120 ''INT_999'') = []" by blast
  from detect_conflicts_contract [of north_120 "''INT_001''"] known pre
  have 2: "fst (detect_conflicts north_120 ''INT_001'') =
      [QueueOverflow ''north'' ''high'' 120 100 ''Increase green time for this direction'']"
    and 3: "snd (detect_conflicts north_120 ''INT_001'') = north_120"
    by blast+
  from 1 2 3 show ?thesis
    by (simp add: prod_eq_iff)
qed

section \<open>The registry invariant is preserved\<close>

text \<open>
  The hypothesis of the optimizer's theorems, a signal on each of the four approaches,
  holds in the initial registry and is kept by every operation.
\<close>

lemma signals_complete_initial: "signals_complete (new_TrafficSignalCoordinator now city)"
  by (auto simp: signals_complete_def intersections_initial signals_make_intersection)

lemma signals_complete_update:
  assumes "signals_complete self"
  shows "signals_complete (snd (update_intersection_data self iid td aqi))"
proof (cases "intersections self iid")
  case None
  with assms show ?thesis by (simp add: update_unknown)
next
  case (Some x)
  with assms have "set directions \<subseteq> dom (signals x)"
    by (simp add: signals_complete_def)
  with assms show ?thesis
    unfolding update_known [OF Some] by (simp add: signals_complete_def)
qed

lemma signals_complete_optimize:
  assumes "signals_complete self"
  shows "signals_complete (snd (optimize_signal_timing now self iid))"
  unfolding signals_complete_def
proof (intro allI impI)
  fix j y
  assume y: "intersections (snd (optimize_signal_timing now self iid)) j = Some y"
  note fr = optimize_signal_timing_frame [of now self iid]
  show "set directions \<subseteq> dom (signals y)"
  proof (cases "j = iid")
    case False
    with fr y have "intersections self j = Some y" by simp
    with assms show ?thesis by (simp add: signals_complete_def)
  next
    case True
    show ?thesis
    proof (cases "intersections self iid")
      case None
      with fr y True show ?thesis by simp
    next
      case (Some x)
      with assms have x: "set directions \<subseteq> dom (signals x)"
        by (simp add: signals_complete_def)
      from fr Some y True have
        d: "\<forall>d. case signals x d of None \<Rightarrow> signals y d = None
             | Some sg \<Rightarrow> (\<exists>g r c. signals y d = Some (sg\<lparr>green_time := g, red_time := r, cycle_time := c\<rparr>))"
        by auto
      show ?thesis
      proof
        fix d assume "d \<in> set directions"
        with x obtain sg where "signals x d = Some sg" by auto
        with d [rule_format, of d] show "d \<in> dom (signals y)" by auto
      qed
    qed
  qed
qed

lemma signals_complete_wave_step:
  assumes "signals_complete (coordinator w)"
  shows "signals_complete (coordinator (wave_step t i a w))"
proof (cases "intersections (coordinator w) a")
  case None
  with assms show ?thesis by (simp add: wave_step_unknown)
next
  case (Some x)
  with assms have "set directions \<subseteq> dom (signals x)"
    by (simp add: signals_complete_def)
  then have "set directions \<subseteq> dom (signals (set_adaptive_offset off x))" for off
    by (auto simp: signals_set_adaptive_offset)
  with assms show ?thesis
    unfolding wave_step_known [OF Some] by (simp add: signals_complete_def)
qed

lemma signals_complete_wave_loop:
  "signals_complete (coordinator w) \<Longrightarrow> signals_complete (coordinator (wave_loop t i ids w))"
  by (induction ids arbitrary: i w) (simp_all add: signals_complete_wave_step)

lemma signals_complete_coordinate:
  assumes "signals_complete self"
  shows "signals_complete (snd (coordinate_green_wave now self ids road speed))"
proof (cases "length ids < 2 \<or> speed = 0")
  case True
  with assms show ?thesis
    by (cases "length ids < 2") (auto simp: coordinate_too_few coordinate_zero_speed)
next
  case False
  then have n: "2 \<le> length ids" and sp: "speed \<noteq> 0" by auto
  from assms have "signals_complete (coordinator (wave_start self))"
    by (simp add: wave_start_def)
  then show ?thesis
    unfolding coordinate_plan [OF n sp] by (simp add: signals_complete_wave_loop)
qed

lemma signals_complete_detect:
  "signals_complete self \<Longrightarrow> signals_complete (snd (detect_conflicts self iid))"
  by (simp add: detect_pure)

end
